theory Spec2Isabelle
  imports Complex_Main "HOL-Library.Log_Nat"
begin

section \<open>Data model\<close>

text \<open>
  The \<^verbatim>\<open>Todo\<close> interface of \<^verbatim>\<open>features/todos/pages/TodoList.tsx\<close>. Optional
  fields are options. Timestamps are \<^verbatim>\<open>Date.now()\<close> readings: milliseconds, natural
  numbers.
\<close>

datatype sync_status = Synced | Pending | Conflict

record todo =
  todo_id :: int
  todo_text :: string
  completed :: bool
  todo_userId :: int
  createdAt :: "string option"
  updatedAt :: "string option"
  lastModified :: "nat option"
  syncStatus :: "sync_status option"

record newTodo =
  new_text :: string
  new_completed :: bool
  new_userId :: int

text \<open>
  The payload of a queue entry or of a realtime update is typed \<^verbatim>\<open>any\<close>; the call
  sites pass either a whole todo or the object \<^verbatim>\<open>{ id }\<close>.
\<close>

datatype payload = TodoData todo | IdData int

fun payload_id :: "payload \<Rightarrow> int" where
  "payload_id (TodoData t) = todo_id t"
| "payload_id (IdData i) = i"

subsection \<open>Number.prototype.toString on integers\<close>

text \<open>
  The decimal digits, as \<^verbatim>\<open>toString\<close> gives them for the integers below \<open>10^21\<close>.
\<close>

definition digit_char :: "nat \<Rightarrow> char" where
  "digit_char d = ''0123456789'' ! d"

fun toString_nat :: "nat \<Rightarrow> string" where
  "toString_nat n =
     (if n < 10 then [digit_char n]
      else toString_nat (n div 10) @ [digit_char (n mod 10)])"

declare toString_nat.simps [simp del]

definition toString_int :: "int \<Rightarrow> string" where
  "toString_int i = (if i < 0 then CHR ''-'' # toString_nat (nat (- i)) else toString_nat (nat i))"

section \<open>OfflineContext: the sync queue\<close>

datatype sync_action = ActCreate | ActUpdate | ActDelete

text \<open>
  What the callers hand to \<^verbatim>\<open>addToSyncQueue\<close>: \<^verbatim>\<open>{ action, data }\<close>. The queue
  stores \<^verbatim>\<open>{ ...item, id: Date.now().toString() }\<close>.
\<close>

record sync_item =
  action :: sync_action
  data :: payload

record queued_item = sync_item +
  queue_id :: string

definition addToSyncQueue :: "nat \<Rightarrow> sync_item \<Rightarrow> queued_item list \<Rightarrow> queued_item list" where
  "addToSyncQueue now item prev =
     prev @ [\<lparr>action = action item, data = data item, queue_id = toString_nat now\<rparr>]"

definition removeFromSyncQueue :: "string \<Rightarrow> queued_item list \<Rightarrow> queued_item list" where
  "removeFromSyncQueue i prev = filter (\<lambda>item. queue_id item \<noteq> i) prev"

section \<open>TodoList: remote calls and mutations\<close>

text \<open>
  The outcome of one \<^verbatim>\<open>fetch\<close>: the promise rejects (network failure) or resolves to a
  response with its \<^verbatim>\<open>ok\<close> flag and body.
\<close>

datatype 'a response = NetworkError | HttpResponse bool 'a

datatype js_error = FetchError | JsonError | TypeError | Failed string

text \<open>The body of an item request, read by \<^verbatim>\<open>res.json()\<close>: \<open>None\<close> when it does not parse.\<close>

definition res_json :: "todo option \<Rightarrow> js_error + todo" where
  "res_json body = (case body of None \<Rightarrow> Inl JsonError | Some t \<Rightarrow> Inr t)"

text \<open>
  The pattern shared by the create, update and toggle mutations: the primary endpoint inside
  \<^verbatim>\<open>try\<close>, the fallback endpoint inside \<^verbatim>\<open>catch\<close>. The \<^verbatim>\<open>catch\<close> block takes over when
  the primary fetch rejects or answers non-ok; its own failures leave the function.
\<close>

definition dispatch_json ::
  "string \<Rightarrow> todo option response \<Rightarrow> todo option response \<Rightarrow> js_error + todo" where
  "dispatch_json msg primary fallback =
     (case primary of
        HttpResponse True body \<Rightarrow> res_json body
      | _ \<Rightarrow>
        (case fallback of
           NetworkError \<Rightarrow> Inl FetchError
         | HttpResponse ok body \<Rightarrow> if \<not> ok then Inl (Failed msg) else res_json body))"

definition dispatch_delete ::
  "int \<Rightarrow> todo option response \<Rightarrow> todo option response \<Rightarrow> js_error + int" where
  "dispatch_delete i primary fallback =
     (case primary of
        HttpResponse True body \<Rightarrow> Inr i
      | _ \<Rightarrow>
        (case fallback of
           NetworkError \<Rightarrow> Inl FetchError
         | HttpResponse ok body \<Rightarrow> if \<not> ok then Inl (Failed ''Failed to delete'') else Inr i))"

definition offline_status :: "bool \<Rightarrow> sync_status" where
  "offline_status isOffline = (if isOffline then Pending else Synced)"

text \<open>
  The four \<^verbatim>\<open>mutationFn\<close>s. Each takes the readings of \<^verbatim>\<open>Date.now()\<close> it makes, in the
  order it makes them, the \<^verbatim>\<open>isOffline\<close> flag, the outcomes of the two endpoints and the
  sync queue, and returns its result (or the error it rejects with) and the queue. A create
  reads the clock for the todo's id (\<open>idNow\<close>) and again for \<^verbatim>\<open>lastModified\<close>
  (\<open>modNow\<close>); an update and a toggle read it for \<^verbatim>\<open>lastModified\<close>; the last reading
  is the one \<^verbatim>\<open>addToSyncQueue\<close> makes when the queue is updated.
\<close>

definition createTodo_mutationFn ::
  "nat \<Rightarrow> nat \<Rightarrow> nat \<Rightarrow> bool \<Rightarrow> todo option response \<Rightarrow> todo option response \<Rightarrow> newTodo \<Rightarrow>
   queued_item list \<Rightarrow> (js_error + todo) \<times> queued_item list" where
  "createTodo_mutationFn idNow modNow queueNow isOffline primary fallback nt queue =
     (let todoWithMeta =
        \<lparr>todo_id = int idNow, todo_text = new_text nt, completed = new_completed nt,
         todo_userId = new_userId nt, createdAt = None, updatedAt = None,
         lastModified = Some modNow, syncStatus = Some (offline_status isOffline)\<rparr>
      in if isOffline
         then (Inr todoWithMeta,
               addToSyncQueue queueNow \<lparr>action = ActCreate, data = TodoData todoWithMeta\<rparr> queue)
         else (dispatch_json ''Failed to add todo'' primary fallback, queue))"

definition updateTodo_mutationFn ::
  "nat \<Rightarrow> nat \<Rightarrow> bool \<Rightarrow> todo option response \<Rightarrow> todo option response \<Rightarrow> todo \<Rightarrow>
   queued_item list \<Rightarrow> (js_error + todo) \<times> queued_item list" where
  "updateTodo_mutationFn modNow queueNow isOffline primary fallback t queue =
     (let updatedTodo =
        t\<lparr>lastModified := Some modNow, syncStatus := Some (offline_status isOffline)\<rparr>
      in if isOffline
         then (Inr updatedTodo,
               addToSyncQueue queueNow \<lparr>action = ActUpdate, data = TodoData updatedTodo\<rparr> queue)
         else (dispatch_json ''Failed to update todo'' primary fallback, queue))"

definition deleteTodo_mutationFn ::
  "nat \<Rightarrow> bool \<Rightarrow> todo option response \<Rightarrow> todo option response \<Rightarrow> int \<Rightarrow>
   queued_item list \<Rightarrow> (js_error + int) \<times> queued_item list" where
  "deleteTodo_mutationFn now isOffline primary fallback i queue =
     (if isOffline
      then (Inr i, addToSyncQueue now \<lparr>action = ActDelete, data = IdData i\<rparr> queue)
      else (dispatch_delete i primary fallback, queue))"

definition toggleCompleted_mutationFn ::
  "nat \<Rightarrow> nat \<Rightarrow> bool \<Rightarrow> todo option response \<Rightarrow> todo option response \<Rightarrow> todo \<Rightarrow>
   queued_item list \<Rightarrow> (js_error + todo) \<times> queued_item list" where
  "toggleCompleted_mutationFn modNow queueNow isOffline primary fallback t queue =
     (let updatedTodo =
        t\<lparr>completed := \<not> completed t, lastModified := Some modNow,
          syncStatus := Some (offline_status isOffline)\<rparr>
      in if isOffline
         then (Inr updatedTodo,
               addToSyncQueue queueNow \<lparr>action = ActUpdate, data = TodoData updatedTodo\<rparr> queue)
         else (dispatch_json ''Failed to toggle completion'' primary fallback, queue))"

section \<open>TodoList: the query cache and its local mirror\<close>

datatype update_type = UCreate | UUpdate | UDelete | UToggle

text \<open>
  The state the page works on: the query data under the keys \<^verbatim>\<open>["todos", 'online']\<close> and
  \<^verbatim>\<open>["todos", 'offline']\<close> (\<open>None\<close> is \<^verbatim>\<open>undefined\<close>), the \<^verbatim>\<open>"todos"\<close> entry of
  \<^verbatim>\<open>localStorage\<close>, the sync queue of the offline context, and the calls of
  \<^verbatim>\<open>emitTodoChange\<close> made so far.
\<close>

record page_state =
  data_online :: "todo list option"
  data_offline :: "todo list option"
  localStorage_todos :: "todo list option"
  syncQueue :: "queued_item list"
  emitted :: "(update_type \<times> payload) list"

definition query_data :: "bool \<Rightarrow> page_state \<Rightarrow> todo list option" where
  "query_data isOffline st = (if isOffline then data_offline st else data_online st)"

definition todosData :: "bool \<Rightarrow> page_state \<Rightarrow> todo list" where
  "todosData isOffline st = (case query_data isOffline st of None \<Rightarrow> [] | Some ts \<Rightarrow> ts)"

section \<open>TodoList: fetching the list\<close>

text \<open>
  The parsed body of a list request: an array, \<^verbatim>\<open>null\<close>, another value with or without a
  \<^verbatim>\<open>todos\<close> array, or text that \<^verbatim>\<open>res.json()\<close> rejects.
\<close>

datatype list_body = JsonArray "todo list" | JsonObject "todo list option" | JsonNull | JsonInvalid

text \<open>The \<^verbatim>\<open>try\<close> block of \<^verbatim>\<open>queryFn\<close>: \<open>None\<close> when it throws.\<close>

definition primary_todos :: "list_body response \<Rightarrow> todo list option" where
  "primary_todos r =
     (case r of
        NetworkError \<Rightarrow> None
      | HttpResponse ok body \<Rightarrow>
          if \<not> ok then None
          else (case body of
                  JsonInvalid \<Rightarrow> None
                | JsonNull \<Rightarrow> None
                | JsonArray ts \<Rightarrow> Some ts
                | JsonObject None \<Rightarrow> Some []
                | JsonObject (Some ts) \<Rightarrow> Some ts))"

text \<open>The \<^verbatim>\<open>catch\<close> block: no \<^verbatim>\<open>ok\<close> check, and \<^verbatim>\<open>data.todos.map\<close> needs the array.\<close>

definition fallback_todos :: "list_body response \<Rightarrow> js_error + todo list" where
  "fallback_todos r =
     (case r of
        NetworkError \<Rightarrow> Inl FetchError
      | HttpResponse ok body \<Rightarrow>
          (case body of
             JsonInvalid \<Rightarrow> Inl JsonError
           | JsonObject (Some ts) \<Rightarrow> Inr (map (\<lambda>t. t\<lparr>syncStatus := Some Synced\<rparr>) ts)
           | _ \<Rightarrow> Inl TypeError))"

text \<open>\<^verbatim>\<open>queryFn\<close> returns the list (or the error) and the \<^verbatim>\<open>localStorage\<close> entry it leaves.\<close>

definition queryFn ::
  "bool \<Rightarrow> todo list option \<Rightarrow> list_body response \<Rightarrow> list_body response \<Rightarrow>
   (js_error + todo list) \<times> todo list option" where
  "queryFn isOffline cached primary fallback =
     (case (if isOffline then cached else None) of
        Some ts \<Rightarrow> (Inr ts, cached)
      | None \<Rightarrow>
        (case primary_todos primary of
           Some ts \<Rightarrow> (Inr ts, Some ts)
         | None \<Rightarrow>
           (case fallback_todos fallback of
              Inr ts \<Rightarrow> (Inr ts, Some ts)
            | Inl e \<Rightarrow> (Inl e, cached))))"

text \<open>
  \<^verbatim>\<open>queryClient.invalidateQueries({ queryKey: ["todos"] })\<close> marks the list stale and the
  mounted query runs \<^verbatim>\<open>queryFn\<close> again: its result replaces the query data; when it fails
  the data stay.
\<close>

definition invalidateQueries ::
  "bool \<Rightarrow> list_body response \<Rightarrow> list_body response \<Rightarrow> page_state \<Rightarrow> page_state" where
  "invalidateQueries isOffline primary fallback st =
     (case queryFn isOffline (localStorage_todos st) primary fallback of
        (Inr ts, ls) \<Rightarrow>
          (if isOffline then st\<lparr>data_offline := Some ts, localStorage_todos := ls\<rparr>
           else st\<lparr>data_online := Some ts, localStorage_todos := ls\<rparr>)
      | (Inl e, ls) \<Rightarrow> st\<lparr>localStorage_todos := ls\<rparr>)"

section \<open>Remote updates\<close>

text \<open>\<^verbatim>\<open>TodoUpdate\<close> of the realtime service, and \<^verbatim>\<open>User\<close> of the auth service.\<close>

record todo_update =
  upd_type :: update_type
  upd_todo :: payload
  upd_userId :: string
  upd_timestamp :: nat

datatype user_ident = IdString string | IdNumber int

record user =
  user_id :: user_ident
  user_email :: string

text \<open>\<^verbatim>\<open>user?.id?.toString()\<close>\<close>

definition user_id_toString :: "user option \<Rightarrow> string option" where
  "user_id_toString u =
     (case u of
        None \<Rightarrow> None
      | Some v \<Rightarrow> (case user_id v of IdString s \<Rightarrow> Some s | IdNumber n \<Rightarrow> Some (toString_int n)))"

text \<open>
  The handlers the provider registers for \<^verbatim>\<open>todo:created\<close>, \<^verbatim>\<open>todo:updated\<close> and
  \<^verbatim>\<open>todo:deleted\<close> are the same: append the update.
\<close>

definition on_todo_event :: "todo_update \<Rightarrow> todo_update list \<Rightarrow> todo_update list" where
  "on_todo_event d prev = prev @ [d]"

text \<open>
  The effect of the page on \<^verbatim>\<open>todoUpdates\<close>: \<open>True\<close> when it reaches
  \<^verbatim>\<open>invalidateQueries\<close>.
\<close>

definition todoUpdates_effect :: "user option \<Rightarrow> todo_update list \<Rightarrow> bool" where
  "todoUpdates_effect u todoUpdates =
     (if length todoUpdates > 0
      then (let latestUpdate = last todoUpdates
            in if Some (upd_userId latestUpdate) = user_id_toString u then False else True)
      else False)"

text \<open>Processing one inbound update: the provider stores it, then the page's effect runs.\<close>

definition process_update ::
  "user option \<Rightarrow> bool \<Rightarrow> list_body response \<Rightarrow> list_body response \<Rightarrow> todo_update \<Rightarrow>
   todo_update list \<times> page_state \<Rightarrow> todo_update list \<times> page_state" where
  "process_update u isOffline primary fallback d s =
     (let todoUpdates = on_todo_event d (fst s)
      in (todoUpdates,
          if todoUpdates_effect u todoUpdates
          then invalidateQueries isOffline primary fallback (snd s)
          else snd s))"

section \<open>RealtimeService\<close>

datatype conn_status = StConnected | StDisconnected | StPolling

record cursor_position =
  cur_userId :: string
  cur_userName :: string
  cur_x :: int
  cur_y :: int
  cur_todoId :: "int option"

datatype event_data = EvConnection conn_status | EvTodo todo_update | EvCursor cursor_position

text \<open>
  The socket as the service sees it: its \<^verbatim>\<open>connected\<close> flag and the options \<^verbatim>\<open>io\<close> was
  called with.
\<close>

record io_socket =
  connected :: bool
  auth_token :: string
  reconnectionDelay :: nat
  reconnectionAttempts :: nat

text \<open>
  The fields of the class. \<^verbatim>\<open>listeners\<close> is a \<^verbatim>\<open>Map<string, Set<Function>>\<close>: a callback is
  a reference, here a number, and a \<^verbatim>\<open>Set\<close> iterates in insertion order, so each set is a
  list without repetition. \<open>intervals\<close> holds the period of every \<^verbatim>\<open>setInterval\<close> timer
  that is running, and \<open>io_calls\<close> counts the calls of \<^verbatim>\<open>io\<close>.
\<close>

record service =
  socket :: "io_socket option"
  reconnectAttempts :: nat
  maxReconnectAttempts :: nat
  reconnectDelay :: nat
  listeners :: "string \<rightharpoonup> nat list"
  intervals :: "nat list"
  io_calls :: nat

definition new_service :: service where
  "new_service =
     \<lparr>socket = None, reconnectAttempts = 0, maxReconnectAttempts = 5, reconnectDelay = 1000,
      listeners = Map.empty, intervals = [], io_calls = 0\<rparr>"

definition isConnected :: "service \<Rightarrow> bool" where
  "isConnected s = (case socket s of None \<Rightarrow> False | Some k \<Rightarrow> connected k)"

definition on :: "string \<Rightarrow> nat \<Rightarrow> service \<Rightarrow> service" where
  "on event callback s =
     s\<lparr>listeners := (listeners s)(event \<mapsto>
        (case listeners s event of
           None \<Rightarrow> [callback]
         | Some cs \<Rightarrow> if callback \<in> set cs then cs else cs @ [callback]))\<rparr>"

definition off :: "string \<Rightarrow> nat \<Rightarrow> service \<Rightarrow> service" where
  "off event callback s =
     (case listeners s event of
        None \<Rightarrow> s
      | Some cs \<Rightarrow> s\<lparr>listeners := (listeners s)(event \<mapsto> removeAll callback cs)\<rparr>)"

text \<open>
  A callback acts on the state \<open>'w\<close> outside the service, or throws. \<^verbatim>\<open>forEach\<close> calls the
  callbacks one after the other with nothing around the call; \<open>run_callbacks\<close> returns the
  callbacks it called, in order, and the outcome.
\<close>

type_synonym 'w callback = "event_data \<Rightarrow> 'w \<Rightarrow> js_error + 'w"

fun run_callbacks ::
  "(nat \<Rightarrow> 'w callback) \<Rightarrow> nat list \<Rightarrow> event_data \<Rightarrow> 'w \<Rightarrow> nat list \<times> (js_error + 'w)" where
  "run_callbacks H [] d w = ([], Inr w)"
| "run_callbacks H (c # cs) d w =
     (case H c d w of
        Inl e \<Rightarrow> ([c], Inl e)
      | Inr w' \<Rightarrow> (case run_callbacks H cs d w' of (called, r) \<Rightarrow> (c # called, r)))"

definition emit ::
  "(nat \<Rightarrow> 'w callback) \<Rightarrow> service \<Rightarrow> string \<Rightarrow> event_data \<Rightarrow> 'w \<Rightarrow> nat list \<times> (js_error + 'w)" where
  "emit H s event d w =
     (case listeners s event of None \<Rightarrow> ([], Inr w) | Some cs \<Rightarrow> run_callbacks H cs d w)"

text \<open>
  For stating what \<^verbatim>\<open>emit\<close> does: the state after every callback of a list, called in
  order, has returned normally; \<open>None\<close> when one of them throws.
\<close>

fun after_all :: "(nat \<Rightarrow> 'w callback) \<Rightarrow> nat list \<Rightarrow> event_data \<Rightarrow> 'w \<Rightarrow> 'w option" where
  "after_all H [] d w = Some w"
| "after_all H (c # cs) d w =
     (case H c d w of Inl e \<Rightarrow> None | Inr w' \<Rightarrow> after_all H cs d w')"

definition useFallbackPolling :: "service \<Rightarrow> service" where
  "useFallbackPolling s = s\<lparr>intervals := intervals s @ [5000]\<rparr>"

text \<open>
  \<^verbatim>\<open>connect\<close>: \<open>token\<close> is \<^verbatim>\<open>authService.getToken()\<close>, and \<open>io_throws\<close> says whether the
  call of \<^verbatim>\<open>io\<close> throws.
\<close>

definition connect :: "string option \<Rightarrow> bool \<Rightarrow> service \<Rightarrow> service" where
  "connect token io_throws s =
     (if isConnected s then s
      else (case token of
              None \<Rightarrow> s
            | Some t \<Rightarrow>
                if t = [] then s
                else if io_throws then useFallbackPolling (s\<lparr>io_calls := Suc (io_calls s)\<rparr>)
                else s\<lparr>socket := Some \<lparr>connected = False, auth_token = t,
                                       reconnectionDelay = reconnectDelay s,
                                       reconnectionAttempts = maxReconnectAttempts s\<rparr>,
                       io_calls := Suc (io_calls s)\<rparr>))"

text \<open>
  \<^verbatim>\<open>disconnect\<close>: the fields when the method returns. The socket's own \<^verbatim>\<open>disconnect()\<close>
  runs before the two assignments and acts on no field of the service.
\<close>

definition disconnect :: "service \<Rightarrow> service" where
  "disconnect s = s\<lparr>socket := None, listeners := Map.empty\<rparr>"

text \<open>The handler of the socket's \<^verbatim>\<open>connect_error\<close>.\<close>

definition on_connect_error :: "service \<Rightarrow> service" where
  "on_connect_error s =
     (let s1 = s\<lparr>reconnectAttempts := Suc (reconnectAttempts s)\<rparr>
      in if reconnectAttempts s1 \<ge> maxReconnectAttempts s1 then useFallbackPolling s1 else s1)"

definition clearInterval :: "nat \<Rightarrow> nat list \<Rightarrow> nat list" where
  "clearInterval i ts = take i ts @ drop (Suc i) ts"

text \<open>
  One firing of the callback of the polling timer number \<open>i\<close>. It returns the service, the
  local callbacks called, and the outcome for the state outside; an exception of a local
  callback ends the firing.
\<close>

definition poll_tick ::
  "(nat \<Rightarrow> 'w callback) \<Rightarrow> string option \<Rightarrow> bool \<Rightarrow> nat \<Rightarrow> service \<Rightarrow> 'w \<Rightarrow>
   service \<times> nat list \<times> (js_error + 'w)" where
  "poll_tick H token io_throws i s w =
     (if isConnected s then (s\<lparr>intervals := clearInterval i (intervals s)\<rparr>, [], Inr w)
      else (case emit H s ''connection'' (EvConnection StPolling) w of
              (called, Inl e) \<Rightarrow> (s, called, Inl e)
            | (called, Inr w') \<Rightarrow>
                (if reconnectAttempts s < maxReconnectAttempts s * 2
                 then connect token io_throws (s\<lparr>reconnectAttempts := Suc (reconnectAttempts s)\<rparr>)
                 else s,
                 called, Inr w')))"

text \<open>\<^verbatim>\<open>emitTodoChange\<close>: the update sent as \<^verbatim>\<open>todo:change\<close>, if any.\<close>

definition emitTodoChange ::
  "string option \<Rightarrow> nat \<Rightarrow> update_type \<Rightarrow> payload \<Rightarrow> service \<Rightarrow> todo_update option" where
  "emitTodoChange token now ty p s =
     (if \<not> isConnected s then None
      else Some \<lparr>upd_type = ty, upd_todo = p,
                 upd_userId = (case token of None \<Rightarrow> ''anonymous''
                               | Some t \<Rightarrow> if t = [] then ''anonymous'' else t),
                 upd_timestamp = now\<rparr>)"

section \<open>RealtimeProvider: cursors\<close>

text \<open>
  The \<^verbatim>\<open>cursors\<close> map and the \<^verbatim>\<open>setTimeout\<close> timers that are waiting, each with the time
  it is due and the user it deletes.
\<close>

record provider =
  cursors :: "string \<rightharpoonup> cursor_position"
  timeouts :: "(nat \<times> string) list"

definition on_cursor_move :: "nat \<Rightarrow> cursor_position \<Rightarrow> provider \<Rightarrow> provider" where
  "on_cursor_move now d p =
     p\<lparr>cursors := (cursors p)(cur_userId d \<mapsto> d),
       timeouts := timeouts p @ [(now + 3000, cur_userId d)]\<rparr>"

text \<open>The clock reaches \<open>t\<close>: the timers due by then fire in the order they were set.\<close>

fun fire_due ::
  "nat \<Rightarrow> (nat \<times> string) list \<Rightarrow> (string \<rightharpoonup> cursor_position) \<Rightarrow>
   (nat \<times> string) list \<times> (string \<rightharpoonup> cursor_position)" where
  "fire_due t [] cs = ([], cs)"
| "fire_due t ((due, u) # ts) cs =
     (if due \<le> t then fire_due t ts (cs(u := None))
      else (case fire_due t ts cs of (waiting, cs') \<Rightarrow> ((due, u) # waiting, cs')))"

definition advance_to :: "nat \<Rightarrow> provider \<Rightarrow> provider" where
  "advance_to t p =
     (case fire_due t (timeouts p) (cursors p) of
        (waiting, cs) \<Rightarrow> p\<lparr>cursors := cs, timeouts := waiting\<rparr>)"

section \<open>TodoList: statistics\<close>

text \<open>
  JavaScript numbers are IEEE 754 binary64 values, and \<^verbatim>\<open>/\<close> and \<^verbatim>\<open>*\<close> return the
  binary64 value nearest to the exact result, ties to the even significand. \<open>to_double\<close>
  is that rounding on the rationals \<open>x \<ge> 0\<close> of the normal range: \<open>x\<close> is scaled by a power
  of two to a significand in \<open>[2^52, 2^53)\<close>, which is rounded to an integer.
\<close>

definition pow2 :: "int \<Rightarrow> rat" where
  "pow2 k = (if k \<ge> 0 then 2 ^ nat k else 1 / 2 ^ nat (- k))"

text \<open>For \<open>x > 0\<close>, the exponent \<open>k\<close> with \<open>2^k \<le> x < 2^(k+1)\<close>.\<close>

definition ilog2 :: "rat \<Rightarrow> int" where
  "ilog2 x =
     (case quotient_of x of
        (p, q) \<Rightarrow> (let k = bitlen p - bitlen q in if pow2 k \<le> x then k else k - 1))"

definition round_half_even :: "rat \<Rightarrow> int" where
  "round_half_even y =
     (let f = \<lfloor>y\<rfloor>; d = y - of_int f
      in if d < 1 / 2 then f else if d > 1 / 2 then f + 1 else if even f then f else f + 1)"

definition to_double :: "rat \<Rightarrow> rat" where
  "to_double x =
     (if x = 0 then 0
      else (let e = ilog2 x - 52 in of_int (round_half_even (x / pow2 e)) * pow2 e))"

text \<open>\<^verbatim>\<open>Math.round\<close>: the nearest integer, a tie going up.\<close>

definition Math_round :: "rat \<Rightarrow> int" where
  "Math_round x = \<lfloor>x + 1 / 2\<rfloor>"

record todoStats =
  total :: nat
  stat_completed :: nat
  stat_pending :: nat
  completionRate :: int

definition stats :: "todo list \<Rightarrow> todoStats" where
  "stats ts =
     \<lparr>total = length ts,
      stat_completed = length (filter (\<lambda>t. completed t) ts),
      stat_pending = length (filter (\<lambda>t. \<not> completed t) ts),
      completionRate =
        (if length ts > 0
         then Math_round (to_double
                (to_double (of_nat (length (filter (\<lambda>t. completed t) ts))
                            / of_nat (length ts)) * 100))
         else 0)\<rparr>"

section \<open>Failed requests\<close>

text \<open>
  A request that failed: the fetch rejected, or the answer is not ok. \<open>failure_of\<close> is the
  exception the \<^verbatim>\<open>catch\<close> block of a mutation ends with when the fallback request failed.
\<close>

definition fetch_failed :: "'a response \<Rightarrow> bool" where
  "fetch_failed r = (case r of NetworkError \<Rightarrow> True | HttpResponse ok body \<Rightarrow> \<not> ok)"

definition failure_of :: "string \<Rightarrow> 'a response \<Rightarrow> js_error" where
  "failure_of msg r = (case r of NetworkError \<Rightarrow> FetchError | HttpResponse ok body \<Rightarrow> Failed msg)"

section \<open>Example inputs\<close>

definition milk :: todo where
  "milk =
     \<lparr>todo_id = 1, todo_text = ''Buy milk'', completed = False, todo_userId = 1,
      createdAt = None, updatedAt = None, lastModified = Some 2000, syncStatus = Some Synced\<rparr>"

definition bread :: todo where
  "bread = milk\<lparr>todo_text := ''Buy bread'', lastModified := None\<rparr>"

definition page0 :: page_state where
  "page0 =
     \<lparr>data_online = Some [milk], data_offline = None, localStorage_todos = Some [milk],
      syncQueue = [], emitted = []\<rparr>"

definition user7 :: user where
  "user7 = \<lparr>user_id = IdNumber 7, user_email = ''a@b.c''\<rparr>"

definition update_by :: "string \<Rightarrow> todo_update" where
  "update_by u =
     \<lparr>upd_type = UUpdate, upd_todo = TodoData (milk\<lparr>todo_text := ''Buy bread''\<rparr>),
      upd_userId = u, upd_timestamp = 1000\<rparr>"

definition new_milk :: newTodo where
  "new_milk = \<lparr>new_text = ''Buy milk'', new_completed = False, new_userId = 1\<rparr>"

definition create_milk :: sync_item where
  "create_milk = \<lparr>action = ActCreate, data = TodoData milk\<rparr>"

text \<open>
  Local callbacks 0, 1 and 2 that log their number, except that callback 1 throws; a
  service with the three subscribed to one event, in that order.
\<close>

definition logging :: "nat \<Rightarrow> nat list callback" where
  "logging c d w = (if c = 1 then Inl TypeError else Inr (w @ [c]))"

definition three_listeners :: service where
  "three_listeners =
     on ''todo:created'' 2 (on ''todo:created'' 1 (on ''todo:created'' 0 new_service))"

definition two_listeners :: service where
  "two_listeners = on ''todo:created'' 2 (on ''todo:created'' 0 new_service)"

text \<open>
  A service whose connection failed five times, the polling timer firing on it, and the
  service after five such firings.
\<close>

definition quiet :: "nat \<Rightarrow> unit callback" where
  "quiet c d w = Inr w"

definition failed5 :: service where
  "failed5 = (on_connect_error ^^ 5) (connect (Some ''token'') False new_service)"

definition tick :: "service \<Rightarrow> service" where
  "tick s = fst (poll_tick quiet (Some ''token'') False 0 s ())"

definition exhausted :: service where
  "exhausted = (tick ^^ 5) failed5"

definition live :: service where
  "live = exhausted\<lparr>socket := map_option (\<lambda>k. k\<lparr>connected := True\<rparr>) (socket exhausted)\<rparr>"

definition no_cursors :: provider where
  "no_cursors = \<lparr>cursors = Map.empty, timeouts = []\<rparr>"

definition cursor_at :: "int \<Rightarrow> cursor_position" where
  "cursor_at x =
     \<lparr>cur_userId = ''u1'', cur_userName = ''User'', cur_x = x, cur_y = 0, cur_todoId = None\<rparr>"

definition forty :: "todo list" where
  "forty = replicate 23 (milk\<lparr>completed := True\<rparr>) @ replicate 17 milk"

section \<open>Theorems\<close>

subsection \<open>Inbound updates\<close>

lemma toString_7: "toString_int 7 = ''7''"
  by (simp add: toString_int_def toString_nat.simps digit_char_def)

lemma toString_1000: "toString_nat 1000 = ''1000''"
  by (simp add: toString_nat.simps digit_char_def)

text \<open>
  What the service stamps on an outgoing update as its \<^verbatim>\<open>userId\<close> is the auth token, or
  \<^verbatim>\<open>'anonymous'\<close>; the page compares the \<^verbatim>\<open>userId\<close> of an incoming update with the id of
  the user.
\<close>

lemma emitTodoChange_userId:
  "isConnected s \<Longrightarrow>
   map_option upd_userId (emitTodoChange token now ty p s) =
     Some (case token of None \<Rightarrow> ''anonymous'' | Some t \<Rightarrow> if t = [] then ''anonymous'' else t)"
  by (simp add: emitTodoChange_def)

text \<open>
  C1 (no self-echo). An inbound update whose \<^verbatim>\<open>userId\<close> equals the local user's id, as
  the page compares it (\<^verbatim>\<open>user?.id?.toString()\<close>), leaves the page's todo data untouched:
  the query data of both keys, the \<^verbatim>\<open>localStorage\<close> mirror and the queue are what they
  were, whatever the endpoints would have answered.
\<close>

theorem no_self_echo:
  "user_id_toString u = Some (upd_userId d) \<Longrightarrow>
   snd (process_update u isOffline primary fallback d (ups, st)) = st"
  by (simp add: process_update_def on_todo_event_def todoUpdates_effect_def Let_def)

theorem no_self_echo_witness:
  "user_id_toString (Some user7) = Some (upd_userId (update_by ''7'')) \<and>
   snd (process_update (Some user7) False (HttpResponse True (JsonArray [bread])) NetworkError
          (update_by ''7'') ([], page0)) = page0"
proof -
  have h: "user_id_toString (Some user7) = Some (upd_userId (update_by ''7''))"
    by (simp add: user_id_toString_def user7_def update_by_def toString_7)
  from no_self_echo [OF h] h show ?thesis by simp
qed

text \<open>
  C2 (staleness rejection), as stated, fails. The stored item \<open>milk\<close> has
  \<^verbatim>\<open>lastModified\<close> 2000; an update for it from user 42 arrives with timestamp 1000, which
  is older. The page does not compare the two: it invalidates the query, the list is fetched
  again, and the stored item becomes what the server answered.
\<close>

theorem stale_update_refetches_counterexample:
  "payload_id (upd_todo (update_by ''42'')) = todo_id milk \<and>
   todosData False page0 = [milk] \<and>
   lastModified milk = Some 2000 \<and> upd_timestamp (update_by ''42'') = 1000 \<and>
   todosData False (snd (process_update (Some user7) False
      (HttpResponse True (JsonArray [bread])) NetworkError (update_by ''42'') ([], page0))) = [bread] \<and>
   todo_text bread \<noteq> todo_text milk"
  by (simp add: update_by_def milk_def bread_def page0_def todosData_def query_data_def
      process_update_def on_todo_event_def todoUpdates_effect_def user_id_toString_def user7_def
      toString_7 invalidateQueries_def queryFn_def primary_todos_def)

text \<open>
  C2 as amended. What processing an inbound update does to the page's data depends on
  neither the update's timestamp nor its payload nor its type. An update of the local user
  is dropped; any other one invalidates the query, and the data become what fetching the
  list again gives.
\<close>

theorem update_timestamp_unused:
  "snd (process_update u isOffline primary fallback
          (d\<lparr>upd_timestamp := ts, upd_todo := p, upd_type := ty\<rparr>) (ups, st))
     = snd (process_update u isOffline primary fallback d (ups, st)) \<and>
   snd (process_update u isOffline primary fallback d (ups, st))
     = (if user_id_toString u = Some (upd_userId d) then st
        else invalidateQueries isOffline primary fallback st)"
  by (auto simp add: process_update_def on_todo_event_def todoUpdates_effect_def Let_def)

subsection \<open>The sync queue\<close>

text \<open>
  C3 (idempotent replay), as stated, fails. The same operation put on the queue twice, even
  within the same millisecond so that both entries get the same id, is in the queue twice.
\<close>

theorem same_op_twice_counterexample:
  "length (addToSyncQueue 1000 create_milk []) = 1 \<and>
   length (addToSyncQueue 1000 create_milk (addToSyncQueue 1000 create_milk [])) = 2 \<and>
   map queue_id (addToSyncQueue 1000 create_milk (addToSyncQueue 1000 create_milk []))
     = [''1000'', ''1000'']"
  by (simp add: addToSyncQueue_def toString_1000)

text \<open>
  C3 as amended. \<^verbatim>\<open>addToSyncQueue\<close> never looks at what the queue holds: every call makes
  the queue one entry longer, the earlier entries stay in place and in order, and the new
  entry, stamped with the clock reading as its id, comes last.
\<close>

theorem addToSyncQueue_appends:
  "length (addToSyncQueue now item q) = length q + 1 \<and>
   length (addToSyncQueue now' item (addToSyncQueue now item q)) = length q + 2 \<and>
   addToSyncQueue now item q
     = q @ [\<lparr>action = action item, data = data item, queue_id = toString_nat now\<rparr>]"
  by (simp add: addToSyncQueue_def)

text \<open>
  C4 (delete dominance), as stated, fails. Offline, an update of the todo with id 1 and
  then its deletion leave both entries in the queue: the update survives the delete.
\<close>

theorem delete_keeps_update_counterexample:
  "map (\<lambda>e. (action e, payload_id (data e)))
     (snd (deleteTodo_mutationFn 2000 True NetworkError NetworkError (todo_id milk)
        (snd (updateTodo_mutationFn 1000 1000 True NetworkError NetworkError milk []))))
   = [(ActUpdate, 1), (ActDelete, 1)]"
  by (simp add: deleteTodo_mutationFn_def updateTodo_mutationFn_def addToSyncQueue_def milk_def
      Let_def)

text \<open>
  C4 as amended. Deleting a todo removes nothing from the queue: offline the queue is the
  old queue followed by the delete entry, online it is the old queue, and in both cases the
  queued updates of that todo (toggles are queued as updates) are exactly those queued
  before. Entries leave the queue only by \<^verbatim>\<open>removeFromSyncQueue\<close>, which drops the entries
  with the given queue id, whatever their action and target.
\<close>

theorem delete_enqueue_keeps_queue:
  "snd (deleteTodo_mutationFn now True primary fallback i q)
     = q @ [\<lparr>action = ActDelete, data = IdData i, queue_id = toString_nat now\<rparr>] \<and>
   snd (deleteTodo_mutationFn now False primary fallback i q) = q \<and>
   filter (\<lambda>e. action e = ActUpdate \<and> payload_id (data e) = i)
     (snd (deleteTodo_mutationFn now isOffline primary fallback i q))
     = filter (\<lambda>e. action e = ActUpdate \<and> payload_id (data e) = i) q \<and>
   removeFromSyncQueue k q = filter (\<lambda>e. queue_id e \<noteq> k) q"
  by (simp add: deleteTodo_mutationFn_def addToSyncQueue_def removeFromSyncQueue_def)

subsection \<open>Mutations and failed requests\<close>

lemma dispatch_json_failed:
  "fetch_failed primary \<Longrightarrow> fetch_failed fallback \<Longrightarrow>
   dispatch_json msg primary fallback = Inl (failure_of msg fallback)"
  by (auto simp add: fetch_failed_def failure_of_def dispatch_json_def split: response.splits bool.splits)

lemma dispatch_delete_failed:
  "fetch_failed primary \<Longrightarrow> fetch_failed fallback \<Longrightarrow>
   dispatch_delete i primary fallback = Inl (failure_of ''Failed to delete'' fallback)"
  by (auto simp add: fetch_failed_def failure_of_def dispatch_delete_def split: response.splits bool.splits)

lemma dispatch_json_answered:
  "primary = HttpResponse True (Some r) \<or>
   fetch_failed primary \<and> fallback = HttpResponse True (Some r) \<Longrightarrow>
   dispatch_json msg primary fallback = Inr r"
  by (auto simp add: fetch_failed_def dispatch_json_def res_json_def split: response.splits bool.splits)

lemma dispatch_delete_answered:
  "\<not> fetch_failed primary \<or> \<not> fetch_failed fallback \<Longrightarrow> dispatch_delete i primary fallback = Inr i"
  by (auto simp add: fetch_failed_def dispatch_delete_def split: response.splits bool.splits)

lemma online_queue_untouched:
  "snd (createTodo_mutationFn idNow modNow queueNow False primary fallback nt q) = q"
  "snd (updateTodo_mutationFn modNow queueNow False primary fallback t q) = q"
  "snd (deleteTodo_mutationFn queueNow False primary fallback i q) = q"
  "snd (toggleCompleted_mutationFn modNow queueNow False primary fallback t q) = q"
  by (simp_all add: createTodo_mutationFn_def updateTodo_mutationFn_def deleteTodo_mutationFn_def
      toggleCompleted_mutationFn_def Let_def)

lemma online_result:
  "fst (createTodo_mutationFn idNow modNow queueNow False primary fallback nt q)
     = dispatch_json ''Failed to add todo'' primary fallback"
  "fst (updateTodo_mutationFn modNow queueNow False primary fallback t q)
     = dispatch_json ''Failed to update todo'' primary fallback"
  "fst (deleteTodo_mutationFn queueNow False primary fallback i q)
     = dispatch_delete i primary fallback"
  "fst (toggleCompleted_mutationFn modNow queueNow False primary fallback t q)
     = dispatch_json ''Failed to toggle completion'' primary fallback"
  by (simp_all add: createTodo_mutationFn_def updateTodo_mutationFn_def deleteTodo_mutationFn_def
      toggleCompleted_mutationFn_def Let_def)

lemma offline_queued:
  "createTodo_mutationFn idNow modNow queueNow True primary fallback nt q
     = (Inr \<lparr>todo_id = int idNow, todo_text = new_text nt, completed = new_completed nt,
             todo_userId = new_userId nt, createdAt = None, updatedAt = None,
             lastModified = Some modNow, syncStatus = Some Pending\<rparr>,
        q @ [\<lparr>action = ActCreate,
               data = TodoData
                 \<lparr>todo_id = int idNow, todo_text = new_text nt, completed = new_completed nt,
                  todo_userId = new_userId nt, createdAt = None, updatedAt = None,
                  lastModified = Some modNow, syncStatus = Some Pending\<rparr>,
               queue_id = toString_nat queueNow\<rparr>])"
  "updateTodo_mutationFn modNow queueNow True primary fallback t q
     = (Inr (t\<lparr>lastModified := Some modNow, syncStatus := Some Pending\<rparr>),
        q @ [\<lparr>action = ActUpdate,
               data = TodoData (t\<lparr>lastModified := Some modNow, syncStatus := Some Pending\<rparr>),
               queue_id = toString_nat queueNow\<rparr>])"
  "deleteTodo_mutationFn queueNow True primary fallback i q
     = (Inr i, q @ [\<lparr>action = ActDelete, data = IdData i, queue_id = toString_nat queueNow\<rparr>])"
  "toggleCompleted_mutationFn modNow queueNow True primary fallback t q
     = (Inr (t\<lparr>completed := \<not> completed t, lastModified := Some modNow,
               syncStatus := Some Pending\<rparr>),
        q @ [\<lparr>action = ActUpdate,
               data = TodoData (t\<lparr>completed := \<not> completed t, lastModified := Some modNow,
                                  syncStatus := Some Pending\<rparr>),
               queue_id = toString_nat queueNow\<rparr>])"
  by (simp_all add: createTodo_mutationFn_def updateTodo_mutationFn_def deleteTodo_mutationFn_def
      toggleCompleted_mutationFn_def addToSyncQueue_def offline_status_def Let_def)

text \<open>
  C5 (submit never raises on network failure), as stated, fails. The mutation function of
  a create runs online, the primary request is rejected and the fallback answers non-ok:
  the function rejects with \<^verbatim>\<open>Error("Failed to add todo")\<close> and the queue is as empty as
  before, so the operation is not kept; running the function once more under the same
  conditions gives the same.
\<close>

theorem online_failure_counterexample:
  "fetch_failed (NetworkError :: todo option response) \<and>
   fetch_failed (HttpResponse False (None :: todo option)) \<and>
   createTodo_mutationFn 1000 1000 1001 False NetworkError (HttpResponse False None) new_milk []
     = (Inl (Failed ''Failed to add todo''), []) \<and>
   createTodo_mutationFn 2000 2000 2001 False NetworkError (HttpResponse False None) new_milk
      (snd (createTodo_mutationFn 1000 1000 1001 False NetworkError (HttpResponse False None)
              new_milk []))
     = (Inl (Failed ''Failed to add todo''), [])"
  by (simp add: fetch_failed_def createTodo_mutationFn_def dispatch_json_def)

text \<open>
  C5 as amended, about each run of a mutation function (create, update, delete, toggle).
  A run with the offline flag clear never touches the sync queue, whatever the endpoints
  answer. When both the primary and the fallback request fail it rejects with the exception
  of the fallback request; when the primary request, or after its failure the fallback
  request, is answered ok it resolves with that answer (a delete with the id). A run with the
  offline flag set makes no request, resolves, and appends its operation to the sync queue;
  the todo of a create, update or toggle carries \<^verbatim>\<open>syncStatus\<close> pending.
\<close>

theorem mutationFn_queues_only_offline:
  "snd (createTodo_mutationFn idNow modNow queueNow False primary fallback nt q) = q \<and>
   snd (updateTodo_mutationFn modNow queueNow False primary fallback t q) = q \<and>
   snd (deleteTodo_mutationFn queueNow False primary fallback i q) = q \<and>
   snd (toggleCompleted_mutationFn modNow queueNow False primary fallback t q) = q \<and>
   (fetch_failed primary \<and> fetch_failed fallback \<longrightarrow>
      fst (createTodo_mutationFn idNow modNow queueNow False primary fallback nt q)
        = Inl (failure_of ''Failed to add todo'' fallback) \<and>
      fst (updateTodo_mutationFn modNow queueNow False primary fallback t q)
        = Inl (failure_of ''Failed to update todo'' fallback) \<and>
      fst (deleteTodo_mutationFn queueNow False primary fallback i q)
        = Inl (failure_of ''Failed to delete'' fallback) \<and>
      fst (toggleCompleted_mutationFn modNow queueNow False primary fallback t q)
        = Inl (failure_of ''Failed to toggle completion'' fallback)) \<and>
   (primary = HttpResponse True (Some r) \<or>
    fetch_failed primary \<and> fallback = HttpResponse True (Some r) \<longrightarrow>
      fst (createTodo_mutationFn idNow modNow queueNow False primary fallback nt q) = Inr r \<and>
      fst (updateTodo_mutationFn modNow queueNow False primary fallback t q) = Inr r \<and>
      fst (toggleCompleted_mutationFn modNow queueNow False primary fallback t q) = Inr r) \<and>
   (\<not> fetch_failed primary \<or> \<not> fetch_failed fallback \<longrightarrow>
      fst (deleteTodo_mutationFn queueNow False primary fallback i q) = Inr i) \<and>
   createTodo_mutationFn idNow modNow queueNow True primary fallback nt q
     = (Inr \<lparr>todo_id = int idNow, todo_text = new_text nt, completed = new_completed nt,
             todo_userId = new_userId nt, createdAt = None, updatedAt = None,
             lastModified = Some modNow, syncStatus = Some Pending\<rparr>,
        q @ [\<lparr>action = ActCreate,
               data = TodoData
                 \<lparr>todo_id = int idNow, todo_text = new_text nt, completed = new_completed nt,
                  todo_userId = new_userId nt, createdAt = None, updatedAt = None,
                  lastModified = Some modNow, syncStatus = Some Pending\<rparr>,
               queue_id = toString_nat queueNow\<rparr>]) \<and>
   updateTodo_mutationFn modNow queueNow True primary fallback t q
     = (Inr (t\<lparr>lastModified := Some modNow, syncStatus := Some Pending\<rparr>),
        q @ [\<lparr>action = ActUpdate,
               data = TodoData (t\<lparr>lastModified := Some modNow, syncStatus := Some Pending\<rparr>),
               queue_id = toString_nat queueNow\<rparr>]) \<and>
   deleteTodo_mutationFn queueNow True primary fallback i q
     = (Inr i, q @ [\<lparr>action = ActDelete, data = IdData i, queue_id = toString_nat queueNow\<rparr>]) \<and>
   toggleCompleted_mutationFn modNow queueNow True primary fallback t q
     = (Inr (t\<lparr>completed := \<not> completed t, lastModified := Some modNow,
               syncStatus := Some Pending\<rparr>),
        q @ [\<lparr>action = ActUpdate,
               data = TodoData (t\<lparr>completed := \<not> completed t, lastModified := Some modNow,
                                  syncStatus := Some Pending\<rparr>),
               queue_id = toString_nat queueNow\<rparr>])"
  using dispatch_json_failed [of primary fallback]
    dispatch_delete_failed [of primary fallback i]
    dispatch_json_answered [of primary r fallback]
    dispatch_delete_answered [of primary fallback i]
  by (simp add: online_queue_untouched online_result offline_queued)

theorem mutationFn_queues_only_offline_witness:
  "fetch_failed (NetworkError :: todo option response) \<and>
   fetch_failed (HttpResponse False (None :: todo option)) \<and>
   createTodo_mutationFn 1000 1000 1001 False NetworkError (HttpResponse False None) new_milk []
     = (Inl (Failed ''Failed to add todo''), []) \<and>
   updateTodo_mutationFn 1000 1001 False NetworkError (HttpResponse False None) milk []
     = (Inl (Failed ''Failed to update todo''), []) \<and>
   deleteTodo_mutationFn 1001 False NetworkError (HttpResponse False None) 1 []
     = (Inl (Failed ''Failed to delete''), []) \<and>
   toggleCompleted_mutationFn 1000 1001 False NetworkError (HttpResponse False None) milk []
     = (Inl (Failed ''Failed to toggle completion''), []) \<and>
   createTodo_mutationFn 1000 1000 1001 False NetworkError (HttpResponse True (Some bread))
      new_milk [] = (Inr bread, []) \<and>
   deleteTodo_mutationFn 1001 False NetworkError (HttpResponse True (Some bread)) 1 []
     = (Inr 1, []) \<and>
   map action (snd (createTodo_mutationFn 1000 1000 1001 True NetworkError
      (HttpResponse False None) new_milk [])) = [ActCreate]"
proof -
  have h: "fetch_failed (NetworkError :: todo option response)"
    "fetch_failed (HttpResponse False (None :: todo option))"
    "\<not> fetch_failed (HttpResponse True (Some bread))"
    by (simp_all add: fetch_failed_def)
  have f: "failure_of msg (HttpResponse False (None :: todo option)) = Failed msg" for msg
    by (simp add: failure_of_def)
  show ?thesis
    using h
      mutationFn_queues_only_offline
        [where primary = NetworkError and fallback = "HttpResponse False None" and idNow = 1000
           and modNow = 1000 and queueNow = 1001 and nt = new_milk and q = "[]" and t = milk
           and i = 1]
      mutationFn_queues_only_offline
        [where primary = NetworkError and fallback = "HttpResponse True (Some bread)"
           and r = bread and idNow = 1000 and modNow = 1000 and queueNow = 1001
           and nt = new_milk and q = "[]" and t = milk and i = 1]
    by (simp add: f prod_eq_iff)
qed

subsection \<open>Local fan-out\<close>

lemma fst_run_callbacks_Cons:
  "fst (run_callbacks H (c # cs) d w) =
     (case H c d w of Inl e \<Rightarrow> [c] | Inr w' \<Rightarrow> c # fst (run_callbacks H cs d w'))"
  by (simp split: sum.splits prod.splits)

lemma snd_run_callbacks_Cons:
  "snd (run_callbacks H (c # cs) d w) =
     (case H c d w of Inl e \<Rightarrow> Inl e | Inr w' \<Rightarrow> snd (run_callbacks H cs d w'))"
  by (simp split: sum.splits prod.splits)

lemma run_callbacks_take:
  "\<exists>k\<le>length cs. fst (run_callbacks H cs d w) = take k cs"
proof (induction cs arbitrary: w)
  case Nil
  then show ?case by simp
next
  case (Cons c cs)
  show ?case
  proof (cases "H c d w")
    case (Inl e)
    then have "fst (run_callbacks H (c # cs) d w) = take 1 (c # cs)" by simp
    moreover have "1 \<le> length (c # cs)" by simp
    ultimately show ?thesis by blast
  next
    case (Inr w')
    from Cons.IH [of w'] obtain k where k: "k \<le> length cs"
      "fst (run_callbacks H cs d w') = take k cs" by blast
    with Inr have "fst (run_callbacks H (c # cs) d w) = take (Suc k) (c # cs)"
      by (simp add: fst_run_callbacks_Cons del: run_callbacks.simps)
    moreover from k(1) have "Suc k \<le> length (c # cs)" by simp
    ultimately show ?thesis by blast
  qed
qed

lemma run_callbacks_all:
  "snd (run_callbacks H cs d w) = Inr w' \<Longrightarrow> fst (run_callbacks H cs d w) = cs"
proof (induction cs arbitrary: w)
  case Nil
  then show ?case by simp
next
  case (Cons c cs)
  then show ?case
    by (cases "H c d w") (simp_all add: fst_run_callbacks_Cons snd_run_callbacks_Cons
        del: run_callbacks.simps)
qed

lemma run_callbacks_thrower:
  "snd (run_callbacks H cs d w) = Inl e \<Longrightarrow>
   fst (run_callbacks H cs d w) \<noteq> [] \<and>
   (\<exists>w1. H (last (fst (run_callbacks H cs d w))) d w1 = Inl e)"
proof (induction cs arbitrary: w)
  case Nil
  then show ?case by simp
next
  case (Cons c cs)
  show ?case
  proof (cases "H c d w")
    case (Inl e')
    with Cons.prems have "e' = e" by simp
    with Inl show ?thesis by auto
  next
    case (Inr w')
    with Cons.prems have "snd (run_callbacks H cs d w') = Inl e"
      by (simp add: snd_run_callbacks_Cons del: run_callbacks.simps)
    from Cons.IH [OF this] Inr show ?thesis
      by (simp add: fst_run_callbacks_Cons del: run_callbacks.simps)
  qed
qed

lemma on_appends:
  "listeners (on ev c s) ev =
     Some (case listeners s ev of None \<Rightarrow> [c] | Some cs \<Rightarrow> if c \<in> set cs then cs else cs @ [c])"
  by (simp add: on_def)

lemma three: "listeners three_listeners ''todo:created'' = Some [0, 1, 2]"
  by (simp add: three_listeners_def on_def new_service_def)

text \<open>
  C6 (fan-out order and isolation), as stated, fails. Callbacks 0, 1 and 2 are subscribed in
  that order and callback 1 throws: \<^verbatim>\<open>emit\<close> calls 0 and 1, the exception leaves \<^verbatim>\<open>emit\<close>,
  and callback 2 is never called.
\<close>

theorem throwing_callback_counterexample:
  "listeners three_listeners ''todo:created'' = Some [0, 1, 2] \<and>
   logging 1 (EvTodo (update_by ''42'')) [0] = Inl TypeError \<and>
   emit logging three_listeners ''todo:created'' (EvTodo (update_by ''42'')) []
     = ([0, 1], Inl TypeError)"
  by (simp add: three emit_def logging_def)

lemma run_callbacks_all_return:
  "after_all H cs d w = Some w' \<Longrightarrow> run_callbacks H cs d w = (cs, Inr w')"
proof (induction cs arbitrary: w)
  case Nil
  then show ?case by simp
next
  case (Cons c cs)
  show ?case
  proof (cases "H c d w")
    case (Inl e)
    with Cons.prems show ?thesis by simp
  next
    case (Inr w1)
    with Cons.prems have "after_all H cs d w1 = Some w'" by simp
    then have "run_callbacks H cs d w1 = (cs, Inr w')" by (rule Cons.IH)
    with Inr show ?thesis by simp
  qed
qed

lemma run_callbacks_first_throw:
  "after_all H pre d w = Some w1 \<Longrightarrow> H c d w1 = Inl e \<Longrightarrow>
   run_callbacks H (pre @ c # post) d w = (pre @ [c], Inl e)"
proof (induction pre arbitrary: w)
  case Nil
  then show ?case by simp
next
  case (Cons a pre)
  show ?case
  proof (cases "H a d w")
    case (Inl e')
    with Cons.prems show ?thesis by simp
  next
    case (Inr w2)
    with Cons.prems have "after_all H pre d w2 = Some w1" by simp
    from Cons.IH [OF this Cons.prems(2)] Inr show ?thesis by simp
  qed
qed

lemma two: "listeners two_listeners ''todo:created'' = Some [0, 2]"
  by (simp add: two_listeners_def on_def new_service_def)

text \<open>
  C6 as amended. \<^verbatim>\<open>on\<close> puts a callback after those already subscribed to the event (and
  changes nothing when it is subscribed already), and \<^verbatim>\<open>emit\<close> calls the callbacks of the
  event in that order, without isolation. When every callback returns normally, all of them
  are called, in subscription order, and \<^verbatim>\<open>emit\<close> returns. When the callbacks before some
  callback return normally and that callback throws, \<^verbatim>\<open>emit\<close> has called exactly those
  callbacks and the thrower, none of the callbacks subscribed after it, and the exception
  leaves \<^verbatim>\<open>emit\<close>.
\<close>

theorem emit_in_order_until_throw:
  "listeners (on ev c s) ev =
     Some (case listeners s ev of None \<Rightarrow> [c]
           | Some cs \<Rightarrow> if c \<in> set cs then cs else cs @ [c]) \<and>
   (listeners s ev = Some cs \<and> after_all H cs d w = Some w' \<longrightarrow>
      emit H s ev d w = (cs, Inr w')) \<and>
   (listeners s ev = Some (pre @ thrower # post) \<and> after_all H pre d w = Some w1 \<and>
    H thrower d w1 = Inl e \<longrightarrow>
      emit H s ev d w = (pre @ [thrower], Inl e))"
  using run_callbacks_all_return [of H cs d w w']
    run_callbacks_first_throw [of H pre d w w1 thrower e post]
  by (simp add: on_appends emit_def)

theorem emit_in_order_until_throw_witness:
  "listeners two_listeners ''todo:created'' = Some [0, 2] \<and>
   after_all logging [0, 2] (EvTodo (update_by ''42'')) [] = Some [0, 2] \<and>
   emit logging two_listeners ''todo:created'' (EvTodo (update_by ''42'')) []
     = ([0, 2], Inr [0, 2]) \<and>
   listeners three_listeners ''todo:created'' = Some ([0] @ 1 # [2]) \<and>
   after_all logging [0] (EvTodo (update_by ''42'')) [] = Some [0] \<and>
   logging 1 (EvTodo (update_by ''42'')) [0] = Inl TypeError \<and>
   emit logging three_listeners ''todo:created'' (EvTodo (update_by ''42'')) []
     = ([0] @ [1], Inl TypeError)"
proof -
  have a: "listeners two_listeners ''todo:created'' = Some [0, 2]"
    "after_all logging [0, 2] (EvTodo (update_by ''42'')) [] = Some [0, 2]"
    by (simp_all add: two logging_def)
  have b: "listeners three_listeners ''todo:created'' = Some ([0] @ 1 # [2])"
    "after_all logging [0] (EvTodo (update_by ''42'')) [] = Some [0]"
    "logging 1 (EvTodo (update_by ''42'')) [0] = Inl TypeError"
    by (simp_all add: three logging_def)
  show ?thesis
    using a b
      emit_in_order_until_throw
        [where s = two_listeners and ev = "''todo:created''" and cs = "[0, 2]" and H = logging
           and d = "EvTodo (update_by ''42'')" and w = "[]" and w' = "[0, 2]"]
      emit_in_order_until_throw
        [where s = three_listeners and ev = "''todo:created''" and pre = "[0]" and thrower = 1
           and post = "[2]" and H = logging and d = "EvTodo (update_by ''42'')" and w = "[]"
           and ?w1.0 = "[0]" and e = TypeError]
    by simp
qed

text \<open>
  C10 (disconnect postcondition). After \<^verbatim>\<open>disconnect\<close> the socket reference is null and
  the listener map is empty, so an event emitted locally reaches no callback, whatever the
  event; after a callback is registered again with \<^verbatim>\<open>on\<close>, the event reaches that callback
  and no other.
\<close>

theorem disconnect_drops_listeners:
  "socket (disconnect s) = None \<and> listeners (disconnect s) = Map.empty \<and>
   isConnected (disconnect s) = False \<and>
   emit H (disconnect s) ev d w = ([], Inr w) \<and>
   listeners (on ev c (disconnect s)) ev = Some [c] \<and>
   emit H (on ev c (disconnect s)) ev d w = run_callbacks H [c] d w"
  by (simp add: disconnect_def emit_def on_def isConnected_def)

subsection \<open>Reconnection and polling\<close>

lemma funpow_5: "(f ^^ 5) x = f (f (f (f (f x))))"
  by (simp add: eval_nat_numeral)

lemma connected_once:
  "connect (Some ''token'') False new_service =
     \<lparr>socket = Some \<lparr>connected = False, auth_token = ''token'', reconnectionDelay = 1000,
                      reconnectionAttempts = 5\<rparr>,
      reconnectAttempts = 0, maxReconnectAttempts = 5, reconnectDelay = 1000,
      listeners = Map.empty, intervals = [], io_calls = 1\<rparr>"
  by (simp add: connect_def new_service_def isConnected_def)

lemma failed5_eq:
  "failed5 =
     \<lparr>socket = Some \<lparr>connected = False, auth_token = ''token'', reconnectionDelay = 1000,
                      reconnectionAttempts = 5\<rparr>,
      reconnectAttempts = 5, maxReconnectAttempts = 5, reconnectDelay = 1000,
      listeners = Map.empty, intervals = [5000], io_calls = 1\<rparr>"
  unfolding failed5_def funpow_5 connected_once
  by (simp add: on_connect_error_def useFallbackPolling_def Let_def)

lemma tick_step:
  "n < 10 \<Longrightarrow>
   tick \<lparr>socket = Some \<lparr>connected = False, auth_token = ''token'', reconnectionDelay = 1000,
                      reconnectionAttempts = 5\<rparr>,
      reconnectAttempts = n, maxReconnectAttempts = 5, reconnectDelay = 1000,
      listeners = Map.empty, intervals = [5000], io_calls = k\<rparr>
   = \<lparr>socket = Some \<lparr>connected = False, auth_token = ''token'', reconnectionDelay = 1000,
                      reconnectionAttempts = 5\<rparr>,
      reconnectAttempts = Suc n, maxReconnectAttempts = 5, reconnectDelay = 1000,
      listeners = Map.empty, intervals = [5000], io_calls = Suc k\<rparr>"
  by (simp add: tick_def poll_tick_def emit_def connect_def isConnected_def)

lemma exhausted_eq:
  "exhausted =
     \<lparr>socket = Some \<lparr>connected = False, auth_token = ''token'', reconnectionDelay = 1000,
                      reconnectionAttempts = 5\<rparr>,
      reconnectAttempts = 10, maxReconnectAttempts = 5, reconnectDelay = 1000,
      listeners = Map.empty, intervals = [5000], io_calls = 6\<rparr>"
  unfolding exhausted_def funpow_5 failed5_eq
  by (simp add: tick_step)

text \<open>
  C7 (reconnect degradation), as stated, fails. After five connection errors the polling
  timer runs. Five firings later the counter is at 10, twice the ceiling, with the socket
  still not connected and the timer still running; the next firing calls \<^verbatim>\<open>io\<close> no more
  and leaves the service as it is: the probe no longer attempts a connect.
\<close>

theorem polling_stops_connecting_counterexample:
  "reconnectAttempts failed5 = 5 \<and> intervals failed5 = [5000] \<and>
   isConnected exhausted = False \<and> intervals exhausted = [5000] \<and>
   reconnectAttempts exhausted = 10 \<and> io_calls exhausted = 6 \<and>
   io_calls (tick exhausted) = 6 \<and> tick exhausted = exhausted"
  by (simp add: failed5_eq exhausted_eq isConnected_def tick_def poll_tick_def emit_def)

lemma poll_tick_quiet:
  "\<not> isConnected s \<Longrightarrow> snd (emit H s ''connection'' (EvConnection StPolling) w) = Inr w' \<Longrightarrow>
   poll_tick H token io_throws i s w =
     (if reconnectAttempts s < maxReconnectAttempts s * 2
      then connect token io_throws (s\<lparr>reconnectAttempts := Suc (reconnectAttempts s)\<rparr>)
      else s,
      fst (emit H s ''connection'' (EvConnection StPolling) w), Inr w')"
  by (cases "emit H s ''connection'' (EvConnection StPolling) w") (simp add: poll_tick_def)

lemma poll_tick_exhausted:
  "\<not> isConnected s \<Longrightarrow> maxReconnectAttempts s * 2 \<le> reconnectAttempts s \<Longrightarrow>
   fst (poll_tick H token io_throws i s w) = s"
  by (cases "emit H s ''connection'' (EvConnection StPolling) w")
    (simp add: poll_tick_def split: sum.splits)

lemma poll_tick_connected:
  "isConnected s \<Longrightarrow>
   poll_tick H token io_throws i s w = (s\<lparr>intervals := clearInterval i (intervals s)\<rparr>, [], Inr w)"
  by (simp add: poll_tick_def)

lemma intervals_on_connect_error:
  "intervals (on_connect_error s) =
     (if maxReconnectAttempts s \<le> Suc (reconnectAttempts s) then intervals s @ [5000]
      else intervals s)"
  by (simp add: on_connect_error_def useFallbackPolling_def Let_def)

text \<open>
  C7 as amended. A connection error starts a timer of period 5000 as soon as the count of
  errors reaches the ceiling. A firing of the timer on a service that is not connected
  passes the polling status to the local \<^verbatim>\<open>connection\<close> callbacks and then, only while the
  counter is below twice the ceiling, counts one more attempt and calls \<^verbatim>\<open>connect\<close>; with
  the counter at twice the ceiling or more the firing leaves the service unchanged. A
  firing on a connected service clears the timer.
\<close>

theorem polling_reconnect_is_bounded:
  "intervals (on_connect_error s) =
     (if maxReconnectAttempts s \<le> Suc (reconnectAttempts s) then intervals s @ [5000]
      else intervals s) \<and>
   (\<not> isConnected s \<and> snd (emit H s ''connection'' (EvConnection StPolling) w) = Inr w' \<longrightarrow>
      poll_tick H token io_throws i s w =
        (if reconnectAttempts s < maxReconnectAttempts s * 2
         then connect token io_throws (s\<lparr>reconnectAttempts := Suc (reconnectAttempts s)\<rparr>)
         else s,
         fst (emit H s ''connection'' (EvConnection StPolling) w), Inr w')) \<and>
   (\<not> isConnected s \<and> maxReconnectAttempts s * 2 \<le> reconnectAttempts s \<longrightarrow>
      fst (poll_tick H token io_throws i s w) = s) \<and>
   (isConnected s \<longrightarrow>
      poll_tick H token io_throws i s w
        = (s\<lparr>intervals := clearInterval i (intervals s)\<rparr>, [], Inr w))"
  using poll_tick_quiet [of s H w w' token io_throws i]
    poll_tick_exhausted [of s H token io_throws i w]
    poll_tick_connected [of s H token io_throws i w]
  by (simp add: intervals_on_connect_error)

theorem polling_reconnect_is_bounded_witness:
  "\<not> isConnected exhausted \<and>
   snd (emit quiet exhausted ''connection'' (EvConnection StPolling) ()) = Inr () \<and>
   maxReconnectAttempts exhausted * 2 \<le> reconnectAttempts exhausted \<and>
   poll_tick quiet (Some ''token'') False 0 exhausted () = (exhausted, [], Inr ()) \<and>
   fst (poll_tick quiet (Some ''token'') False 0 exhausted ()) = exhausted \<and>
   isConnected live \<and>
   intervals (fst (poll_tick quiet (Some ''token'') False 0 live ())) = []"
proof -
  have a: "\<not> isConnected exhausted"
    "snd (emit quiet exhausted ''connection'' (EvConnection StPolling) ()) = Inr ()"
    "maxReconnectAttempts exhausted * 2 \<le> reconnectAttempts exhausted"
    "fst (emit quiet exhausted ''connection'' (EvConnection StPolling) ()) = []"
    by (simp_all add: exhausted_eq isConnected_def emit_def)
  have b: "isConnected live" "intervals live = [5000]"
    by (simp_all add: live_def exhausted_eq isConnected_def)
  show ?thesis
    using a b
      polling_reconnect_is_bounded
        [where s = exhausted and H = quiet and w = "()" and w' = "()"
           and token = "Some ''token''" and io_throws = False and i = 0]
      polling_reconnect_is_bounded
        [where s = live and H = quiet and w = "()" and w' = "()"
           and token = "Some ''token''" and io_throws = False and i = 0]
    by (simp add: clearInterval_def)
qed

subsection \<open>Cursors\<close>

lemma fire_due_None:
  "cs u = None \<or> (\<exists>due\<le>t. (due, u) \<in> set ts) \<Longrightarrow> snd (fire_due t ts cs) u = None"
proof (induction ts arbitrary: cs)
  case Nil
  then show ?case by simp
next
  case (Cons a ts)
  obtain due' u' where a: "a = (due', u')" by (cases a)
  show ?case
  proof (cases "due' \<le> t")
    case True
    have "(cs(u' := None)) u = None \<or> (\<exists>due\<le>t. (due, u) \<in> set ts)"
      using Cons.prems a True by auto
    then have "snd (fire_due t ts (cs(u' := None))) u = None"
      by (rule Cons.IH [of "cs(u' := None)"])
    with a True show ?thesis by simp
  next
    case False
    have "cs u = None \<or> (\<exists>due\<le>t. (due, u) \<in> set ts)"
      using Cons.prems a False by auto
    then have "snd (fire_due t ts cs) u = None"
      by (rule Cons.IH [of cs])
    with a False show ?thesis by (cases "fire_due t ts cs") simp
  qed
qed

lemma cursors_advance_to:
  "cursors (advance_to t p) = snd (fire_due t (timeouts p) (cursors p))"
  by (simp add: advance_to_def split: prod.splits)

text \<open>
  The timer set by a move removes the cursor of its user: 3000 ms after a move, at the
  latest, the user's cursor is gone, whatever the other timers did.
\<close>

lemma cursor_expires_after_last_move:
  "now + 3000 \<le> t \<Longrightarrow> cursors (advance_to t (on_cursor_move now d p)) (cur_userId d) = None"
proof -
  assume "now + 3000 \<le> t"
  then have "\<exists>due\<le>t. (due, cur_userId d) \<in> set (timeouts (on_cursor_move now d p))"
    by (auto simp add: on_cursor_move_def)
  then have "snd (fire_due t (timeouts (on_cursor_move now d p))
      (cursors (on_cursor_move now d p))) (cur_userId d) = None"
    by (intro fire_due_None) blast
  then show ?thesis by (simp add: cursors_advance_to)
qed

text \<open>
  C8 (cursor expiry: a cursor that is updated again within the 3000 ms is not removed until
  3000 ms after the most recent update). The code does not do this. A cursor of user
  \<open>u1\<close> moves at time 0 and again at time 2000, where it is in the map; at time 3000 the
  timer of the first move fires and removes it, 1000 ms after its last update, and the
  timer of the second move is still waiting for time 5000.
\<close>

theorem cursor_removed_while_active:
  "cursors (on_cursor_move 2000 (cursor_at 5) (advance_to 2000 (on_cursor_move 0 (cursor_at 1) no_cursors)))
     ''u1'' = Some (cursor_at 5) \<and>
   cursors (advance_to 3000 (on_cursor_move 2000 (cursor_at 5)
     (advance_to 2000 (on_cursor_move 0 (cursor_at 1) no_cursors)))) ''u1'' = None \<and>
   timeouts (advance_to 3000 (on_cursor_move 2000 (cursor_at 5)
     (advance_to 2000 (on_cursor_move 0 (cursor_at 1) no_cursors)))) = [(5000, ''u1'')]"
  by (simp add: on_cursor_move_def advance_to_def no_cursors_def cursor_at_def)

subsection \<open>Statistics\<close>

text \<open>
  \<open>to_double\<close> is a rounding to binary64: for \<open>x > 0\<close> the exponent found by \<open>ilog2\<close> is
  the right one, the significand is an integer between \<open>2^52\<close> and \<open>2^53\<close>, and the result
  is within half a unit of the last place of \<open>x\<close>.
\<close>

lemma pow2_powi: "pow2 k = 2 powi k"
  by (simp add: pow2_def power_int_def inverse_eq_divide power_one_over)

lemma pow2_pos: "0 < pow2 k"
  by (simp add: pow2_powi)

lemma pow2_add: "pow2 (j + k) = pow2 j * pow2 k"
  by (simp add: pow2_powi power_int_add)

lemma pow2_diff: "pow2 (j - k) = pow2 j / pow2 k"
  by (simp add: pow2_powi power_int_diff)

lemma pow2_1: "pow2 1 = 2"
  by (simp add: pow2_def)

lemma bitlen_rat_bounds:
  assumes "0 < (p::int)"
  shows "pow2 (bitlen p - 1) \<le> of_int p" "of_int p < pow2 (bitlen p)"
proof -
  from bitlen_bounds [OF assms]
  have b: "2 ^ nat (bitlen p - 1) \<le> p" "p < 2 ^ nat (bitlen p)" by simp_all
  have ge1: "1 \<le> bitlen p" using assms bitlen_eq_zero_iff [of p] bitlen_nonneg [of p] by linarith
  have "(of_int (2 ^ nat (bitlen p - 1)) :: rat) \<le> of_int p" using b(1) by (simp only: of_int_le_iff)
  then show "pow2 (bitlen p - 1) \<le> of_int p" using ge1 by (simp add: pow2_def)
  have "(of_int p :: rat) < of_int (2 ^ nat (bitlen p))" using b(2) by (simp only: of_int_less_iff)
  then show "of_int p < pow2 (bitlen p)" using ge1 by (simp add: pow2_def)
qed

lemma ilog2_bounds:
  assumes "0 < x"
  shows "pow2 (ilog2 x) \<le> x \<and> x < pow2 (ilog2 x + 1)"
proof -
  obtain p q where pq: "quotient_of x = (p, q)" by (cases "quotient_of x")
  then have q: "0 < q" by (rule quotient_of_denom_pos)
  from pq have x: "x = of_int p / of_int q" by (rule quotient_of_div)
  with assms q have p: "0 < p" by (simp add: zero_less_divide_iff)
  let ?k = "bitlen p - bitlen q"
  have up: "x < pow2 (?k + 1)"
  proof -
    have "x < pow2 (bitlen p) / of_int q"
      unfolding x using bitlen_rat_bounds(2) [OF p] q by (simp add: divide_strict_right_mono)
    also have "\<dots> \<le> pow2 (bitlen p) / pow2 (bitlen q - 1)"
      using bitlen_rat_bounds(1) [OF q] pow2_pos [of "bitlen p"] pow2_pos [of "bitlen q - 1"]
      by (simp add: frac_le)
    also have "\<dots> = pow2 (?k + 1)"
      using pow2_diff [of "bitlen p" "bitlen q - 1"] by (simp add: algebra_simps)
    finally show ?thesis .
  qed
  have lo: "pow2 (?k - 1) \<le> x"
  proof -
    have "pow2 (?k - 1) = pow2 (bitlen p - 1) / pow2 (bitlen q)"
      using pow2_diff [of "bitlen p - 1" "bitlen q"] by (simp add: algebra_simps)
    also have "\<dots> \<le> pow2 (bitlen p - 1) / of_int q"
      using bitlen_rat_bounds(2) [OF q] q pow2_pos [of "bitlen p - 1"]
      by (simp add: frac_le)
    also have "\<dots> \<le> x"
      unfolding x using bitlen_rat_bounds(1) [OF p] q by (simp add: divide_right_mono)
    finally show ?thesis .
  qed
  show ?thesis
  proof (cases "pow2 ?k \<le> x")
    case True
    then have "ilog2 x = ?k" by (simp add: ilog2_def pq Let_def)
    with True up show ?thesis by simp
  next
    case False
    then have "ilog2 x = ?k - 1" by (simp add: ilog2_def pq Let_def)
    with False lo show ?thesis by simp
  qed
qed

lemma round_half_even_near: "\<bar>of_int (round_half_even y) - y\<bar> \<le> 1 / 2"
proof -
  have "of_int \<lfloor>y\<rfloor> \<le> y" "y < of_int \<lfloor>y\<rfloor> + 1" by linarith+
  then show ?thesis by (auto simp add: round_half_even_def Let_def abs_le_iff)
qed

lemma to_double_near:
  assumes "0 < x"
  shows "\<bar>to_double x - x\<bar> \<le> pow2 (ilog2 x - 53)"
proof -
  let ?e = "ilog2 x - 52"
  let ?m = "round_half_even (x / pow2 ?e)"
  have "\<bar>of_int ?m - x / pow2 ?e\<bar> \<le> 1 / 2" by (rule round_half_even_near)
  then have "\<bar>of_int ?m - x / pow2 ?e\<bar> * pow2 ?e \<le> 1 / 2 * pow2 ?e"
    using pow2_pos [of ?e] by (simp add: mult_right_mono)
  moreover have "\<bar>of_int ?m - x / pow2 ?e\<bar> * pow2 ?e = \<bar>of_int ?m * pow2 ?e - x\<bar>"
  proof -
    have "\<bar>of_int ?m - x / pow2 ?e\<bar> * pow2 ?e = \<bar>(of_int ?m - x / pow2 ?e) * pow2 ?e\<bar>"
      using pow2_pos [of ?e] by (simp add: abs_mult)
    also have "(of_int ?m - x / pow2 ?e) * pow2 ?e = of_int ?m * pow2 ?e - x"
      using pow2_pos [of ?e] by (simp add: left_diff_distrib)
    finally show ?thesis .
  qed
  moreover have "1 / 2 * pow2 ?e = pow2 (ilog2 x - 53)"
    using pow2_diff [of ?e 1] by (simp add: pow2_1)
  ultimately show ?thesis using assms by (simp add: to_double_def Let_def)
qed

lemma to_double_significand:
  assumes "0 < x"
  shows "to_double x = of_int (round_half_even (x / pow2 (ilog2 x - 52))) * pow2 (ilog2 x - 52) \<and>
     2 ^ 52 \<le> round_half_even (x / pow2 (ilog2 x - 52)) \<and>
     round_half_even (x / pow2 (ilog2 x - 52)) \<le> 2 ^ 53"
proof -
  let ?e = "ilog2 x - 52"
  let ?y = "x / pow2 ?e"
  have e: "pow2 (ilog2 x) = 2 ^ 52 * pow2 ?e" "pow2 (ilog2 x + 1) = 2 ^ 53 * pow2 ?e"
  proof -
    have n: "pow2 52 = 2 ^ 52" "pow2 53 = 2 ^ 53" by (simp_all add: pow2_def)
    show "pow2 (ilog2 x) = 2 ^ 52 * pow2 ?e" using pow2_add [of 52 ?e] by (simp only: n) simp
    have "53 + ?e = ilog2 x + 1" by simp
    with pow2_add [of 53 ?e] show "pow2 (ilog2 x + 1) = 2 ^ 53 * pow2 ?e" by (simp only: n)
  qed
  from ilog2_bounds [OF assms] have "2 ^ 52 \<le> ?y" "?y < 2 ^ 53"
    using pow2_pos [of ?e] by (simp_all add: e pos_le_divide_eq pos_divide_less_eq)
  then have f: "(2 ^ 52 :: int) \<le> \<lfloor>?y\<rfloor>" "\<lfloor>?y\<rfloor> < 2 ^ 53"
    by (simp_all add: le_floor_iff floor_less_iff)
  have r: "\<lfloor>?y\<rfloor> \<le> round_half_even ?y" "round_half_even ?y \<le> \<lfloor>?y\<rfloor> + 1"
    by (simp_all add: round_half_even_def Let_def)
  have "2 ^ 52 \<le> round_half_even ?y" using f(1) r(1) by (rule order_trans)
  moreover have "round_half_even ?y \<le> 2 ^ 53" using f(2) r(2) by linarith
  moreover have "to_double x = of_int (round_half_even ?y) * pow2 ?e"
    using assms by (simp add: to_double_def Let_def)
  ultimately show ?thesis by blast
qed

text \<open>
  The counts add up for every list, and the rate of the empty list is 0.
\<close>

lemma stats_counts:
  "stat_completed (stats ts) + stat_pending (stats ts) = total (stats ts) \<and>
   completionRate (stats []) = 0"
  by (simp add: stats_def sum_length_filter_compl)

lemma double_23_40: "Math_round (to_double (to_double (23 / 40) * 100)) = 57"
  by code_simp

lemma exact_23_40: "Math_round (100 * 23 / 40) = 58"
  by code_simp

lemma forty_counts:
  "length forty = 40" "length (filter (\<lambda>t. completed t) forty) = 23"
  "length (filter (\<lambda>t. \<not> completed t) forty) = 17"
  by (simp_all add: forty_def milk_def)

text \<open>
  C9 (statistics: \<open>completed + pending = total\<close>, and the rate is 0 for the empty list and
  \<open>round(100 \<times> completed / total)\<close> otherwise). The counts are right, the rate is not always:
  with 23 of 40 todos completed the exact percentage is 57.5, which rounds to 58, but the
  code divides first, \<^verbatim>\<open>23 / 40\<close> is the binary64 value just below 0.575, its product with
  100 is the binary64 value just below 57.5, and \<^verbatim>\<open>Math.round\<close> returns 57.
\<close>

theorem completionRate_rounds_down:
  "total (stats forty) = 40 \<and> stat_completed (stats forty) = 23 \<and>
   stat_pending (stats forty) = 17 \<and>
   completionRate (stats forty) = 57 \<and> Math_round (100 * 23 / 40) = 58"
  using exact_23_40 by (simp add: stats_def forty_counts double_23_40)

end
